theory Spec2Isabelle
  imports Main "HOL-Library.AList"
begin

section \<open>The 1234 duel server: scoring engine\<close>

text \<open>
  The server (index.js) keeps three global containers: the map \<open>rooms\<close> from room code to
  room, the object \<open>queues\<close> with one FIFO per mode, and socket.io's table of connected
  sockets. Every handler runs to completion, so a handler is a function from the state
  before to the state after. The values the handlers draw from outside (\<open>nanoid(6)\<close>,
  \<open>Math.random()\<close>, \<open>Date.now()\<close>) are arguments of the events.

  Strings are lists of characters. The digit strings the claims are about are ASCII, where a
  character and a UTF-16 code unit of JavaScript coincide.
\<close>

subsection \<open>Indexing, the format check\<close>

text \<open>\<open>s[i]\<close> in JavaScript: \<open>undefined\<close> beyond the end, which is \<open>None\<close> here.\<close>

definition at :: "'a list \<Rightarrow> nat \<Rightarrow> 'a option" where
  "at s i = (if i < length s then Some (s ! i) else None)"

definition isDigit :: "char \<Rightarrow> bool" where
  "isDigit c = (c \<in> set ''0123456789'')"

text \<open>\<open>/^\d{4}$/.test(s)\<close>: exactly four characters, each of \<open>0\<close> to \<open>9\<close>.\<close>

definition test4 :: "string \<Rightarrow> bool" where
  "test4 s = (length s = 4 \<and> list_all isDigit s)"

subsection \<open>countCorrectPositions, feedbackDigits, feedbackMask\<close>

text \<open>
  \<^verbatim>\<open>
  function countCorrectPositions(guess, secret) {
    let c = 0;
    for (let i = 0; i < 4; i++) if (guess[i] === secret[i]) c++;
    return c;
  }
  \<close>
  Two positions beyond the end of both strings compare equal (\<open>undefined === undefined\<close>).
\<close>

definition countCorrectPositions :: "string \<Rightarrow> string \<Rightarrow> nat" where
  "countCorrectPositions guess secret =
     length (filter (\<lambda>i. at guess i = at secret i) [0 ..< 4])"

text \<open>\<open>set.add(d)\<close> on a JavaScript \<open>Set\<close>, which iterates in insertion order.\<close>

definition set_add :: "'a \<Rightarrow> 'a list \<Rightarrow> 'a list" where
  "set_add d acc = (if d \<in> set acc then acc else acc @ [d])"

text \<open>
  \<^verbatim>\<open>
  function feedbackDigits(guess, secret) {
    const g = guess.split(""); const s = secret.split("");
    const set = new Set();
    for (const d of g) if (s.includes(d)) set.add(d);
    return [...set];
  }
  \<close>
\<close>

definition feedbackDigits :: "string \<Rightarrow> string \<Rightarrow> string" where
  "feedbackDigits guess secret =
     foldl (\<lambda>acc d. if d \<in> set secret then set_add d acc else acc) [] guess"

text \<open>
  \<open>feedbackMask\<close> maps every position of the guess to a filled or an empty circle and
  joins them with spaces; the two circles are the constructors \<open>Hit\<close> and \<open>Miss\<close> here.
\<close>

datatype mark = Hit | Miss

definition feedbackMask :: "string \<Rightarrow> string \<Rightarrow> mark list" where
  "feedbackMask guess secret =
     map (\<lambda>i. if Some (guess ! i) = at secret i then Hit else Miss) [0 ..< length guess]"

section \<open>The server state\<close>

text \<open>
  \<open>socket.id\<close> is an opaque identifier that socket.io gives every connection: a non-empty
  string, so it is truthy wherever the code tests it. Identifiers are natural numbers here.
\<close>

type_synonym sid = nat

text \<open>A value of \<open>room.players\<close>: \<open>{ name, secret, ready }\<close>; \<open>secret: null\<close> is \<open>None\<close>.\<close>

record player =
  name :: string
  secret :: "string option"
  ready :: bool

text \<open>
  An entry of \<open>room.history\<close>: \<open>{ by, guess, correctCount, ts }\<close> with \<open>feedbackDigits\<close> and
  \<open>feedbackMask\<close> set in their modes only. (\<open>by\<close> is a keyword of Isabelle: the field is
  \<open>by_sid\<close>.)
\<close>

record item =
  by_sid :: sid
  guess :: string
  correctCount :: nat
  item_feedbackDigits :: "string option"
  item_feedbackMask :: "mark list option"
  ts :: nat

text \<open>
  A room as \<open>makeRoom\<close> builds it. \<open>players\<close> is a JavaScript object keyed by socket id,
  whose keys and entries are listed in insertion order: an association list.
\<close>

record room =
  code :: string
  mode :: string
  players :: "(sid \<times> player) list"
  order :: "sid list"
  turnIndex :: nat
  winner :: "sid option"
  history :: "item list"

text \<open>
  What the server keeps per connected socket: the fields of \<open>socket.data\<close> that the
  handlers read and write, and the number of \<open>queue:join\<close> listeners registered on the
  socket (the \<open>guess\<close> handler registers one each time it accepts a guess).
\<close>

record socket_data =
  roomCode :: "string option"
  queueMode :: "string option"
  playerName :: "string option"
  queueJoinListeners :: nat

record server =
  rooms :: "string \<rightharpoonup> room"
  queues :: "(string \<times> sid list) list"
  sockets :: "sid \<rightharpoonup> socket_data"

definition init :: server where
  "init = \<lparr> rooms = Map.empty,
            queues = [(''CLASSIC'', []), (''REVEAL_DIGITS'', []), (''REVEAL_POSITIONS'', [])],
            sockets = Map.empty \<rparr>"

subsection \<open>JavaScript strings: truthiness, defaults, trim, toUpperCase\<close>

text \<open>A string or \<open>undefined\<close>/\<open>null\<close> in a condition: falsy when absent or empty.\<close>

definition truthy :: "string option \<Rightarrow> bool" where
  "truthy x = (case x of None \<Rightarrow> False | Some s \<Rightarrow> s \<noteq> [])"

text \<open>\<open>x || d\<close> for a string \<open>x\<close> that may be absent.\<close>

definition or_default :: "string option \<Rightarrow> string \<Rightarrow> string" where
  "or_default x d = (case x of None \<Rightarrow> d | Some s \<Rightarrow> if s = [] then d else s)"

definition isSpace :: "char \<Rightarrow> bool" where
  "isSpace c = (c \<in> set [CHR '' '', CHR 0x09, CHR 0x0A, CHR 0x0B, CHR 0x0C, CHR 0x0D])"

text \<open>\<open>s.trim()\<close>, on ASCII white space.\<close>

definition trim :: "string \<Rightarrow> string" where
  "trim s = rev (dropWhile isSpace (rev (dropWhile isSpace s)))"

definition upper_char :: "char \<Rightarrow> char" where
  "upper_char c =
     (case map_of (zip ''abcdefghijklmnopqrstuvwxyz'' ''ABCDEFGHIJKLMNOPQRSTUVWXYZ'') c of
        Some u \<Rightarrow> u
      | None \<Rightarrow> c)"

text \<open>\<open>s.toUpperCase()\<close>, on ASCII letters.\<close>

definition toUpperCase :: "string \<Rightarrow> string" where
  "toUpperCase s = map upper_char s"

subsection \<open>The queues\<close>

text \<open>\<open>queues[mode] || []\<close>\<close>

definition queue_of :: "string \<Rightarrow> server \<Rightarrow> sid list" where
  "queue_of m st = (case map_of (queues st) m of Some q \<Rightarrow> q | None \<Rightarrow> [])"

text \<open>
  \<^verbatim>\<open>
  function enqueue(mode, socketId) {
    const q = queues[mode] || (queues[mode] = []);
    if (!q.includes(socketId)) q.push(socketId);
  }
  \<close>
\<close>

definition enqueue :: "string \<Rightarrow> sid \<Rightarrow> server \<Rightarrow> server" where
  "enqueue m socketId st =
     (let q = queue_of m st
      in st\<lparr>queues := AList.update m (if socketId \<in> set q then q else q @ [socketId]) (queues st)\<rparr>)"

text \<open>
  \<^verbatim>\<open>
  function dequeue(mode, socketId) {
    const q = queues[mode] || [];
    queues[mode] = q.filter((id) => id !== socketId);
  }
  \<close>
\<close>

definition dequeue :: "string \<Rightarrow> sid \<Rightarrow> server \<Rightarrow> server" where
  "dequeue m socketId st =
     st\<lparr>queues := AList.update m (filter (\<lambda>i. i \<noteq> socketId) (queue_of m st)) (queues st)\<rparr>"

text \<open>
  The loop of \<open>popOpponent\<close>: the first entry that is not \<open>exceptId\<close> is spliced out of the
  array and returned; \<open>null\<close> when there is none.
\<close>

fun splice_first :: "sid \<Rightarrow> sid list \<Rightarrow> sid option \<times> sid list" where
  "splice_first exceptId [] = (None, [])"
| "splice_first exceptId (x # xs) =
     (if x \<noteq> exceptId then (Some x, xs)
      else (case splice_first exceptId xs of (r, ys) \<Rightarrow> (r, x # ys)))"

definition popOpponent :: "string \<Rightarrow> sid \<Rightarrow> server \<Rightarrow> sid option \<times> server" where
  "popOpponent m exceptId st =
     (case splice_first exceptId (queue_of m st) of
        (None, _) \<Rightarrow> (None, st)
      | (Some opp, q') \<Rightarrow> (Some opp, st\<lparr>queues := AList.update m q' (queues st)\<rparr>))"

text \<open>\<open>Object.values(queues).some((q) => q.includes(id))\<close>\<close>

definition isInAnyQueue :: "sid \<Rightarrow> server \<Rightarrow> bool" where
  "isInAnyQueue s st = list_ex (\<lambda>(m, q). s \<in> set q) (queues st)"

subsection \<open>The registry of rooms\<close>

definition set_room :: "string \<Rightarrow> room \<Rightarrow> server \<Rightarrow> server" where
  "set_room c r st = st\<lparr>rooms := (rooms st)(c \<mapsto> r)\<rparr>"

text \<open>
  \<^verbatim>\<open>
  function makeRoom(mode = "CLASSIC") {
    const code = nanoid(6).toUpperCase();
    const room = { code, mode, players: {}, order: [], turnIndex: 0, winner: null, history: [] };
    rooms.set(code, room);
    return room;
  }
  \<close>
  \<open>nid\<close> is the string that \<open>nanoid(6)\<close> returns. There is no test whether the code is in
  use: \<open>rooms.set\<close> replaces whatever the map held under it.
\<close>

definition makeRoom :: "string \<Rightarrow> string \<Rightarrow> server \<Rightarrow> room \<times> server" where
  "makeRoom nid m st =
     (let c = toUpperCase nid;
          room = \<lparr> code = c, mode = m, players = [], order = [], turnIndex = 0,
                   winner = None, history = [] \<rparr>
      in (room, set_room c room st))"

definition set_data :: "sid \<Rightarrow> (socket_data \<Rightarrow> socket_data) \<Rightarrow> server \<Rightarrow> server" where
  "set_data s f st =
     (case sockets st s of
        None \<Rightarrow> st
      | Some d \<Rightarrow> st\<lparr>sockets := (sockets st)(s \<mapsto> f d)\<rparr>)"

text \<open>
  \<^verbatim>\<open>
  function destroyRoom(code, reason = "player-left") {
    const room = rooms.get(code);
    if (!room) return;
    io.to(code).emit("room-destroyed", { reason });
    try {
      for (const id of Object.keys(room.players)) {
        const s = io.sockets.sockets.get(id);
        if (s) s.data.roomCode = undefined;
      }
      io.in(code).socketsLeave(code);
    } catch {}
    rooms.delete(code);
  }
  \<close>
\<close>

definition destroyRoom :: "string \<Rightarrow> server \<Rightarrow> server" where
  "destroyRoom c st =
     (case rooms st c of
        None \<Rightarrow> st
      | Some room \<Rightarrow>
          (let st1 = fold (\<lambda>i. set_data i (\<lambda>d. d\<lparr>roomCode := None\<rparr>)) (map fst (players room)) st
           in st1\<lparr>rooms := (rooms st1)(c := None)\<rparr>))"

subsection \<open>The payloads sent to the clients\<close>

record public_room =
  pub_code :: string
  pub_mode :: string
  pub_players :: "(sid \<times> string \<times> bool) list"
  currentTurn :: "sid option"
  pub_winner :: "sid option"

text \<open>
  \<^verbatim>\<open>
  function publicRoom(room) {
    return {
      code: room.code, mode: room.mode,
      players: Object.entries(room.players).map(([id, p]) => ({ id, name: p.name, ready: p.ready })),
      currentTurn: room.order[room.turnIndex] || null,
      winner: room.winner,
    };
  }
  \<close>
\<close>

definition publicRoom :: "room \<Rightarrow> public_room" where
  "publicRoom room =
     \<lparr> pub_code = code room, pub_mode = mode room,
       pub_players = map (\<lambda>(i, p). (i, name p, ready p)) (players room),
       currentTurn = at (order room) (turnIndex room),
       pub_winner = winner room \<rparr>"

text \<open>\<open>slimHistory(h)\<close> copies the six fields of a history entry.\<close>

definition slimHistory :: "item \<Rightarrow> item" where
  "slimHistory h =
     \<lparr> by_sid = by_sid h, guess = guess h, correctCount = correctCount h,
       item_feedbackDigits = item_feedbackDigits h, item_feedbackMask = item_feedbackMask h,
       ts = ts h \<rparr>"

section \<open>The event handlers\<close>

text \<open>
  Every handler belongs to one connected socket, \<open>me\<close> (\<open>socket.id\<close>). What a handler
  emits does not change the state and is left out; the payloads are \<open>publicRoom\<close> and
  \<open>slimHistory\<close> above.
\<close>

text \<open>The first lines of \<open>create-room\<close> and \<open>join-room\<close>: leave the queue, if queued.\<close>

definition leave_queue_first :: "sid \<Rightarrow> server \<Rightarrow> server" where
  "leave_queue_first me st =
     (case sockets st me of
        None \<Rightarrow> st
      | Some d \<Rightarrow>
          (case queueMode d of
             None \<Rightarrow> st
           | Some qMode \<Rightarrow>
               if qMode = [] then st
               else set_data me (\<lambda>d. d\<lparr>queueMode := None\<rparr>) (dequeue qMode me st)))"

definition new_player :: "string \<Rightarrow> player" where
  "new_player n = \<lparr> name = n, secret = None, ready = False \<rparr>"

text \<open>
  \<open>create-room\<close> with the payload \<open>{ name, mode }\<close>; \<open>nid\<close> is what \<open>nanoid(6)\<close> returns.
\<close>

definition create_room :: "sid \<Rightarrow> string option \<Rightarrow> string option \<Rightarrow> string \<Rightarrow> server \<Rightarrow> server" where
  "create_room me nm md nid st =
     (let st1 = leave_queue_first me st;
          (room, st2) = makeRoom nid (toUpperCase (or_default md ''CLASSIC'')) st1;
          room1 = room\<lparr>players := AList.update me
                          (new_player (or_default (map_option trim nm) ''Player A'')) (players room),
                        order := order room @ [me]\<rparr>
      in set_data me (\<lambda>d. d\<lparr>roomCode := Some (code room1)\<rparr>) (set_room (code room1) room1 st2))"

text \<open>
  \<open>join-room\<close> with the payload \<open>{ code, name }\<close>. The room is looked up under the
  upper-cased code; a missing room and a room with two players are refused.
\<close>

definition join_room :: "sid \<Rightarrow> string option \<Rightarrow> string option \<Rightarrow> server \<Rightarrow> server" where
  "join_room me c nm st =
     (let st1 = leave_queue_first me st;
          key = toUpperCase (or_default c [])
      in case rooms st1 key of
           None \<Rightarrow> st1
         | Some room \<Rightarrow>
             if length (players room) \<ge> 2 then st1
             else
               (let room1 = room\<lparr>players := AList.update me
                               (new_player (or_default (map_option trim nm) ''Player B''))
                               (players room),
                             order := order room @ [me]\<rparr>
                in set_data me (\<lambda>d. d\<lparr>roomCode := Some (code room1)\<rparr>) (set_room key room1 st1)))"

text \<open>
  \<^verbatim>\<open>
  socket.on("set-secret", ({ code, secret }) => {
    const room = rooms.get(code);
    if (!room) return;
    const p = room.players[socket.id];
    if (!p) return;
    if (!/^\d{4}$/.test(secret)) return;
    p.secret = secret;
    p.ready = true;
    const readyCount = Object.values(room.players).filter((pl) => pl.ready).length;
    if (readyCount === 2 && room.order.length === 2) {
      room.turnIndex = Math.round(Math.random());
      room.winner = null;
    }
    io.to(code).emit("room-update", publicRoom(room));
  });
  \<close>
  \<open>coin\<close> is the outcome of \<open>Math.round(Math.random())\<close>: \<open>True\<close> for 1, \<open>False\<close> for 0.
\<close>

definition readyCount :: "room \<Rightarrow> nat" where
  "readyCount room = length (filter (\<lambda>(i, pl). ready pl) (players room))"

definition set_secret :: "sid \<Rightarrow> string \<Rightarrow> string \<Rightarrow> bool \<Rightarrow> server \<Rightarrow> server" where
  "set_secret me c s coin st =
     (case rooms st c of
        None \<Rightarrow> st
      | Some room \<Rightarrow>
          (case map_of (players room) me of
             None \<Rightarrow> st
           | Some p \<Rightarrow>
               if \<not> test4 s then st
               else
                 (let room1 = room\<lparr>players :=
                                AList.update me (p\<lparr>secret := Some s, ready := True\<rparr>) (players room)\<rparr>;
                      room2 = (if readyCount room1 = 2 \<and> length (order room1) = 2
                               then room1\<lparr>turnIndex := (if coin then 1 else 0), winner := None\<rparr>
                               else room1)
                  in set_room c room2 st)))"

text \<open>
  The \<open>guess\<close> handler, payload \<open>{ code, guess }\<close>; \<open>now\<close> is \<open>Date.now()\<close>.
  \<^verbatim>\<open>
    const room = rooms.get(code);
    if (!room || room.winner) return;
    const idx = room.turnIndex % room.order.length;
    if (socket.id !== room.order[idx]) return;
    if (!/^\d{4}$/.test(guess)) { ...error-msg...; return; }
    const opp = room.order.find((id) => id !== socket.id);
    const oppPlayer = room.players[opp];
    if (!oppPlayer?.secret) { ...error-msg...; return; }
    const correctCount = countCorrectPositions(guess, oppPlayer.secret);
    const item = { by: socket.id, guess, correctCount, ts: Date.now() };
    if (room.mode === "REVEAL_DIGITS") item.feedbackDigits = feedbackDigits(guess, oppPlayer.secret);
    if (room.mode === "REVEAL_POSITIONS") item.feedbackMask = feedbackMask(guess, oppPlayer.secret);
    room.history.push(item);
    if (correctCount === 4) { room.winner = socket.id; ...game-over... }
    else { room.turnIndex = (room.turnIndex + 1) % room.order.length; }
    ...
    socket.on("queue:join", ...);
  \<close>
  With an empty \<open>order\<close> the index is \<open>NaN\<close>, \<open>room.order[NaN]\<close> is \<open>undefined\<close> and the
  handler returns. The last statement of the handler registers a \<open>queue:join\<close> listener
  on the socket: it is reached only when the guess has been accepted.
\<close>

definition guess_item :: "room \<Rightarrow> sid \<Rightarrow> string \<Rightarrow> string \<Rightarrow> nat \<Rightarrow> item" where
  "guess_item room me g sec now =
     \<lparr> by_sid = me, guess = g, correctCount = countCorrectPositions g sec,
       item_feedbackDigits =
         (if mode room = ''REVEAL_DIGITS'' then Some (feedbackDigits g sec) else None),
       item_feedbackMask =
         (if mode room = ''REVEAL_POSITIONS'' then Some (feedbackMask g sec) else None),
       ts = now \<rparr>"

definition on_guess :: "sid \<Rightarrow> string \<Rightarrow> string \<Rightarrow> nat \<Rightarrow> server \<Rightarrow> server" where
  "on_guess me c g now st =
     (case rooms st c of
        None \<Rightarrow> st
      | Some room \<Rightarrow>
          if winner room \<noteq> None then st
          else if order room = [] then st
          else if me \<noteq> order room ! (turnIndex room mod length (order room)) then st
          else if \<not> test4 g then st
          else
            (case find (\<lambda>i. i \<noteq> me) (order room) of
               None \<Rightarrow> st
             | Some opp \<Rightarrow>
                 (case map_of (players room) opp of
                    None \<Rightarrow> st
                  | Some oppPlayer \<Rightarrow>
                      if \<not> truthy (secret oppPlayer) then st
                      else
                        (let sec = the (secret oppPlayer);
                             it = guess_item room me g sec now;
                             room1 = room\<lparr>history := history room @ [it]\<rparr>;
                             room2 = (if correctCount it = 4
                                      then room1\<lparr>winner := Some me\<rparr>
                                      else room1\<lparr>turnIndex :=
                                             (turnIndex room + 1) mod length (order room)\<rparr>)
                         in set_data me
                              (\<lambda>d. d\<lparr>queueJoinListeners := Suc (queueJoinListeners d)\<rparr>)
                              (set_room c room2 st)))))"

text \<open>
  One run of the \<open>queue:join\<close> listener, payload \<open>{ mode, name }\<close>.
  \<^verbatim>\<open>
      mode = (mode || "CLASSIC").toUpperCase();
      if (!queues[mode]) return cb?.({ error: "Unknown mode" });
      if (socket.data.roomCode) return cb?.({ error: "Already in a room" });
      if (isInAnyQueue(socket.id)) return cb?.({ error: "Already queued" });
      socket.data.playerName = name?.trim() || "Player";
      socket.data.queueMode = mode;
      enqueue(mode, socket.id);
      const opponentId = popOpponent(mode, socket.id);
      if (opponentId) {
        dequeue(mode, socket.id);
        const oppSocket = io.sockets.sockets.get(opponentId);
        if (!oppSocket) { enqueue(mode, socket.id); return; }
        const room = makeRoom(mode);
        const meName = socket.data.playerName || "Player A";
        const oppName = oppSocket.data.playerName || "Player B";
        room.players[socket.id] = { name: meName, secret: null, ready: false };
        room.players[opponentId] = { name: oppName, secret: null, ready: false };
        room.order.push(socket.id, opponentId);
        socket.data.roomCode = room.code;
        oppSocket.data.roomCode = room.code;
      }
  \<close>
\<close>

definition match_players :: "sid \<Rightarrow> sid \<Rightarrow> string \<Rightarrow> string \<Rightarrow> server \<Rightarrow> server" where
  "match_players me opp m nid st =
     (case (sockets st me, sockets st opp) of
        (Some d, Some od) \<Rightarrow>
          (let (room, st1) = makeRoom nid m st;
               ps1 = AList.update me (new_player (or_default (playerName d) ''Player A''))
                       (players room);
               ps2 = AList.update opp (new_player (or_default (playerName od) ''Player B'')) ps1;
               room1 = room\<lparr>players := ps2, order := order room @ [me, opp]\<rparr>;
               st2 = set_room (code room1) room1 st1;
               st3 = set_data me (\<lambda>d. d\<lparr>roomCode := Some (code room1)\<rparr>) st2
           in set_data opp (\<lambda>d. d\<lparr>roomCode := Some (code room1)\<rparr>) st3)
      | _ \<Rightarrow> st)"

definition queue_join :: "sid \<Rightarrow> string option \<Rightarrow> string option \<Rightarrow> string \<Rightarrow> server \<Rightarrow> server" where
  "queue_join me md nm nid st =
     (case sockets st me of
        None \<Rightarrow> st
      | Some d \<Rightarrow>
          (let m = toUpperCase (or_default md ''CLASSIC'')
           in if map_of (queues st) m = None then st
              else if truthy (roomCode d) then st
              else if isInAnyQueue me st then st
              else
                (let st1 = set_data me
                             (\<lambda>d. d\<lparr>playerName := Some (or_default (map_option trim nm) ''Player''),
                                    queueMode := Some m\<rparr>) st;
                     st2 = enqueue m me st1
                 in case popOpponent m me st2 of
                      (None, _) \<Rightarrow> st2
                    | (Some opponentId, st3) \<Rightarrow>
                        (let st4 = dequeue m me st3
                         in if sockets st4 opponentId = None then enqueue m me st4
                            else match_players me opponentId m nid st4))))"

text \<open>
  An incoming \<open>queue:join\<close> event runs every listener registered on the socket, one after
  the other: none on a socket whose guesses have never been accepted.
\<close>

definition on_queue_join :: "sid \<Rightarrow> string option \<Rightarrow> string option \<Rightarrow> string \<Rightarrow> server \<Rightarrow> server" where
  "on_queue_join me md nm nid st =
     (case sockets st me of
        None \<Rightarrow> st
      | Some d \<Rightarrow> (queue_join me md nm nid ^^ queueJoinListeners d) st)"

text \<open>
  \<^verbatim>\<open>
  socket.on("queue:leave", (_, cb) => {
    const mode = socket.data?.queueMode;
    if (mode) dequeue(mode, socket.id);
    socket.data.queueMode = undefined;
    cb?.({ ok: true });
  });
  \<close>
\<close>

definition queue_leave :: "sid \<Rightarrow> server \<Rightarrow> server" where
  "queue_leave me st =
     (case sockets st me of
        None \<Rightarrow> st
      | Some d \<Rightarrow>
          set_data me (\<lambda>d. d\<lparr>queueMode := None\<rparr>)
            (if truthy (queueMode d) then dequeue (the (queueMode d)) me st else st))"

text \<open>
  \<^verbatim>\<open>
  socket.on("reset-room", ({ code }) => {
    const room = rooms.get(code);
    if (!room) return;
    // If one player left, destroy instead of resetting
    if (Object.keys(room.players).length < 2) { destroyRoom(code, "player-left"); return; }
    // Normal reset
    for (const id of Object.keys(room.players)) {
      room.players[id].secret = null;
      room.players[id].ready = false;
    }
    room.history = [];
    room.winner = null;
    room.turnIndex = room.order.length === 2 ? (room.turnIndex + 1) % 2 : 0;
    ...
  });
  \<close>
\<close>

definition reset_room :: "string \<Rightarrow> server \<Rightarrow> server" where
  "reset_room c st =
     (case rooms st c of
        None \<Rightarrow> st
      | Some room \<Rightarrow>
          if length (players room) < 2 then destroyRoom c st
          else set_room c
                 (room\<lparr>players := map (\<lambda>(i, p). (i, p\<lparr>secret := None, ready := False\<rparr>)) (players room),
                       history := [],
                       winner := None,
                       turnIndex := (if length (order room) = 2 then (turnIndex room + 1) mod 2 else 0)\<rparr>)
                 st)"

text \<open>
  The repository's second, older server file (no queues, no \<open>destroyRoom\<close>) has the same
  scoring functions, \<open>makeRoom\<close>, \<open>set-secret\<close> and \<open>guess\<close> (without the listener), but its
  \<open>reset-room\<close> resets whatever the number of players:
  \<^verbatim>\<open>
  socket.on('reset-room', ({ code }) => {
    const room = rooms.get(code);
    if (!room) return;
    for (const id of Object.keys(room.players)) { ...secret = null; ...ready = false; }
    room.history = [];
    room.winner = null;
    room.turnIndex = room.order.length === 2 ? (room.turnIndex + 1) % 2 : 0;
    ...
  });
  \<close>
\<close>

definition reset_room_older :: "string \<Rightarrow> server \<Rightarrow> server" where
  "reset_room_older c st =
     (case rooms st c of
        None \<Rightarrow> st
      | Some room \<Rightarrow>
          set_room c
            (room\<lparr>players := map (\<lambda>(i, p). (i, p\<lparr>secret := None, ready := False\<rparr>)) (players room),
                  history := [],
                  winner := None,
                  turnIndex := (if length (order room) = 2 then (turnIndex room + 1) mod 2 else 0)\<rparr>)
            st)"

text \<open>\<open>leave-room\<close>: a member of the room destroys it.\<close>

definition leave_room :: "sid \<Rightarrow> string \<Rightarrow> server \<Rightarrow> server" where
  "leave_room me c st =
     (case rooms st c of
        None \<Rightarrow> st
      | Some room \<Rightarrow> if map_of (players room) me = None then st else destroyRoom c st)"

text \<open>
  The end of a connection. socket.io first emits \<open>disconnecting\<close> (leave the queue of
  \<open>queueMode\<close>, destroy the room of \<open>roomCode\<close> if it exists), then takes the socket out of
  its table, then emits \<open>disconnect\<close> (sweep every queue).
\<close>

definition disconnecting :: "sid \<Rightarrow> server \<Rightarrow> server" where
  "disconnecting me st =
     (case sockets st me of
        None \<Rightarrow> st
      | Some d \<Rightarrow>
          (let st1 = (if truthy (queueMode d) then dequeue (the (queueMode d)) me st else st)
           in if truthy (roomCode d) \<and> rooms st1 (the (roomCode d)) \<noteq> None
              then destroyRoom (the (roomCode d)) st1
              else st1))"

definition sweep_queues :: "sid \<Rightarrow> server \<Rightarrow> server" where
  "sweep_queues me st =
     st\<lparr>queues := map (\<lambda>(m, q). (m, filter (\<lambda>i. i \<noteq> me) q)) (queues st)\<rparr>"

definition disconnect :: "sid \<Rightarrow> server \<Rightarrow> server" where
  "disconnect me st =
     (let st1 = disconnecting me st
      in sweep_queues me (st1\<lparr>sockets := (sockets st1)(me := None)\<rparr>))"

subsection \<open>Events and reachable states\<close>

datatype event =
    Connect sid
  | CreateRoom sid "string option" "string option" string
  | JoinRoom sid "string option" "string option"
  | SetSecret sid string string bool
  | Guess sid string string nat
  | QueueJoin sid "string option" "string option" string
  | QueueLeave sid
  | ResetRoom sid string
  | LeaveRoom sid string
  | Disconnect sid

text \<open>The socket an event comes from.\<close>

fun sender :: "event \<Rightarrow> sid" where
  "sender (Connect s) = s"
| "sender (CreateRoom s _ _ _) = s"
| "sender (JoinRoom s _ _) = s"
| "sender (SetSecret s _ _ _) = s"
| "sender (Guess s _ _ _) = s"
| "sender (QueueJoin s _ _ _) = s"
| "sender (QueueLeave s) = s"
| "sender (ResetRoom s _) = s"
| "sender (LeaveRoom s _) = s"
| "sender (Disconnect s) = s"

text \<open>
  A new connection gets a fresh id, an empty \<open>socket.data\<close> and no \<open>queue:join\<close> listener.
\<close>

definition connect :: "sid \<Rightarrow> server \<Rightarrow> server" where
  "connect s st =
     st\<lparr>sockets := (sockets st)(s \<mapsto> \<lparr> roomCode = None, queueMode = None, playerName = None,
                                      queueJoinListeners = 0 \<rparr>)\<rparr>"

fun handle :: "event \<Rightarrow> server \<Rightarrow> server" where
  "handle (Connect s) st = connect s st"
| "handle (CreateRoom s nm md nid) st = create_room s nm md nid st"
| "handle (JoinRoom s c nm) st = join_room s c nm st"
| "handle (SetSecret s c sec coin) st = set_secret s c sec coin st"
| "handle (Guess s c g now) st = on_guess s c g now st"
| "handle (QueueJoin s md nm nid) st = on_queue_join s md nm nid st"
| "handle (QueueLeave s) st = queue_leave s st"
| "handle (ResetRoom s c) st = reset_room c st"
| "handle (LeaveRoom s c) st = leave_room s c st"
| "handle (Disconnect s) st = disconnect s st"

text \<open>
  One step of the server: a connection is accepted under an id that is not in use; every
  other event is handled only when it comes from a connected socket.
\<close>

definition step :: "event \<Rightarrow> server \<Rightarrow> server" where
  "step e st =
     (case e of
        Connect s \<Rightarrow> (if sockets st s = None then handle e st else st)
      | _ \<Rightarrow> (if sockets st (sender e) = None then st else handle e st))"

definition run :: "event list \<Rightarrow> server \<Rightarrow> server" where
  "run es st = fold step es st"

inductive reachable :: "server \<Rightarrow> bool" where
  reachable_init: "reachable init"
| reachable_step: "reachable st \<Longrightarrow> reachable (step e st)"

section \<open>Notions of the specification, example runs\<close>

text \<open>
  Two rooms differ only in the players' secrets when they agree after every secret is
  blanked.
\<close>

definition erase_secrets :: "room \<Rightarrow> room" where
  "erase_secrets r = r\<lparr>players := map (\<lambda>(i, p). (i, p\<lparr>secret := None\<rparr>)) (players r)\<rparr>"

text \<open>
  Socket 1 creates a room (\<open>nanoid\<close> returns \<open>abc123\<close>) and socket 2 joins it.
\<close>

definition ex_committing :: server where
  "ex_committing =
     run [Connect 1, Connect 2, CreateRoom 1 None None ''abc123'',
          JoinRoom 2 (Some ''abc123'') None] init"

text \<open>Both commit their secrets; the draw gives the first turn to seat 0.\<close>

definition ex_active :: server where
  "ex_active =
     run [SetSecret 1 ''ABC123'' ''1234'' False, SetSecret 2 ''ABC123'' ''5678'' False]
       ex_committing"

text \<open>Socket 1 creates a room and is alone in it.\<close>

definition ex_forming :: server where
  "ex_forming = run [Connect 1, Connect 2, CreateRoom 1 None None ''abc123''] init"

text \<open>The in-turn socket 1 guesses the secret of socket 2: the game is finished.\<close>

definition ex_finished :: server where
  "ex_finished = run [Guess 1 ''ABC123'' ''5678'' 7] ex_active"

definition ex_finished_room :: room where
  "ex_finished_room =
     \<lparr> code = ''ABC123'', mode = ''CLASSIC'',
       players = [(1, \<lparr> name = ''Player A'', secret = Some ''1234'', ready = True \<rparr>),
                  (2, \<lparr> name = ''Player B'', secret = Some ''5678'', ready = True \<rparr>)],
       order = [1, 2], turnIndex = 0, winner = Some 1,
       history = [\<lparr> by_sid = 1, guess = ''5678'', correctCount = 4,
                    item_feedbackDigits = None, item_feedbackMask = None, ts = 7 \<rparr>] \<rparr>"

text \<open>After the game, socket 2 commits another secret.\<close>

definition ex_recommitted :: server where
  "ex_recommitted = run [SetSecret 2 ''ABC123'' ''0000'' False] ex_finished"

text \<open>While socket 1 waits alone in its room, socket 2 creates a room of its own.\<close>

definition ex_two_rooms :: server where
  "ex_two_rooms = run [CreateRoom 2 None None ''xyz789''] ex_forming"


text \<open>
  The equivalence of the specification: a winner is set exactly when some entry of the
  history has four correct positions.
\<close>

definition winner_iff :: "room \<Rightarrow> bool" where
  "winner_iff room =
     ((winner room \<noteq> None) = list_ex (\<lambda>h. correctCount h = 4) (history room))"

text \<open>
  What holds of every registered room in every reachable state: it is stored under its own
  code, and a winner has an entry with four correct positions in the history.
\<close>

definition room_inv :: "string \<Rightarrow> room \<Rightarrow> bool" where
  "room_inv c r =
     (code r = c \<and>
      (case winner r of
         None \<Rightarrow> True
       | Some w \<Rightarrow> list_ex (\<lambda>h. correctCount h = 4 \<and> by_sid h = w) (history r)))"

definition inv :: "server \<Rightarrow> bool" where
  "inv st = (\<forall>c r. rooms st c = Some r \<longrightarrow> room_inv c r)"

text \<open>
  Three sockets that have played and left their rooms: each has had a guess accepted, so
  each carries a \<open>queue:join\<close> listener; no room is left and the queues are empty.
\<close>

definition ex_lobby :: server where
  "ex_lobby =
     run [Connect 1, Connect 2, Connect 3,
          CreateRoom 1 None None ''room01'', JoinRoom 2 (Some ''room01'') None,
          SetSecret 1 ''ROOM01'' ''1234'' False, SetSecret 2 ''ROOM01'' ''5678'' False,
          Guess 1 ''ROOM01'' ''0000'' 1, Guess 2 ''ROOM01'' ''0000'' 2,
          LeaveRoom 1 ''ROOM01'',
          CreateRoom 3 None None ''room02'', JoinRoom 2 (Some ''room02'') None,
          SetSecret 3 ''ROOM02'' ''1111'' False, SetSecret 2 ''ROOM02'' ''2222'' False,
          Guess 3 ''ROOM02'' ''0000'' 3,
          LeaveRoom 3 ''ROOM02''] init"

text \<open>Socket 3 has joined the CLASSIC queue and waits there.\<close>

definition ex_third_waiting :: server where
  "ex_third_waiting = run [QueueJoin 3 None None ''room03''] ex_lobby"

text \<open>The connection whose turn it is: \<open>room.order[room.turnIndex % room.order.length]\<close>.\<close>

definition seat_in_turn :: "room \<Rightarrow> sid option" where
  "seat_in_turn room = at (order room) (turnIndex room mod length (order room))"

text \<open>
  Socket 1 creates a room and then sends \<open>join-room\<close> for its own room, which has one player
  and is not full: it is entered in \<open>order\<close> a second time. Socket 2 joins and both commit their
  secrets. The room has two players and three seats, so \<open>set-secret\<close> draws no first turn.
\<close>

definition ex_self_join :: server where
  "ex_self_join =
     run [Connect 1, Connect 2, CreateRoom 1 None None ''abc123'',
          JoinRoom 1 (Some ''abc123'') None, JoinRoom 2 (Some ''abc123'') None,
          SetSecret 1 ''ABC123'' ''1234'' True, SetSecret 2 ''ABC123'' ''5678'' True] init"

section \<open>Properties of the scoring engine\<close>

lemma upt_4: "[0 ..< 4] = [0, 1, 2, Suc 2]"
  by (simp add: upt_rec numeral_eq_Suc)

lemma length_4_cases:
  assumes "length xs = 4"
  obtains a b c d where "xs = [a, b, c, d]"
proof -
  from assms obtain a ys where xs: "xs = a # ys" and "length ys = 3"
    by (cases xs) auto
  then obtain b zs where ys: "ys = b # zs" and "length zs = 2"
    by (cases ys) auto
  then obtain c ws where zs: "zs = c # ws" and "length ws = 1"
    by (cases zs) auto
  then obtain d where "ws = [d]"
    by (cases ws) auto
  with xs ys zs show thesis
    using that by blast
qed

lemma countCorrectPositions_4:
  "countCorrectPositions [a, b, c, d] [a', b', c', d'] =
     (if a = a' then 1 else 0) + (if b = b' then 1 else 0) +
     (if c = c' then 1 else 0) + (if d = d' then 1 else 0)"
  by (simp add: countCorrectPositions_def upt_4 at_def)

lemma countCorrectPositions_eq_4:
  assumes "length g = 4" and "length s = 4"
  shows "countCorrectPositions g s = 4 \<longleftrightarrow> g = s"
proof -
  from assms(1) obtain a b c d where g: "g = [a, b, c, d]"
    by (rule length_4_cases)
  from assms(2) obtain a' b' c' d' where s: "s = [a', b', c', d']"
    by (rule length_4_cases)
  show ?thesis
    unfolding g s countCorrectPositions_4 by (simp split: if_splits)
qed

lemma countCorrectPositions_le: "countCorrectPositions g s \<le> 4"
proof -
  have "length (filter (\<lambda>i. at g i = at s i) [0 ..< 4]) \<le> length [0 ..< (4::nat)]"
    by (rule length_filter_le)
  then show ?thesis by (simp add: countCorrectPositions_def)
qed

text \<open>
  Claim C5. For all strings \<open>g\<close> (the guess) and \<open>s\<close> (the secret) that pass the four-digit
  format check, \<open>countCorrectPositions g s\<close> is 4 exactly when the two strings are equal.
\<close>

theorem countCorrectPositions_four_iff_equal:
  "test4 g \<Longrightarrow> test4 s \<Longrightarrow> (countCorrectPositions g s = 4) = (g = s)"
  by (simp add: test4_def countCorrectPositions_eq_4)

theorem countCorrectPositions_four_iff_equal_witness:
  "test4 ''5678'' \<and> test4 ''5679'' \<and>
   countCorrectPositions ''5678'' ''5678'' = 4 \<and>
   countCorrectPositions ''5678'' ''5679'' \<noteq> 4"
  using countCorrectPositions_four_iff_equal [of "''5678''" "''5678''"]
    countCorrectPositions_four_iff_equal [of "''5678''" "''5679''"]
  by (simp add: test4_def isDigit_def)

lemma feedback_fold_distinct:
  "distinct acc \<Longrightarrow>
   distinct (foldl (\<lambda>acc d. if d \<in> set s then set_add d acc else acc) acc g)"
  by (induction g arbitrary: acc) (auto simp: set_add_def)

lemma feedback_fold_set:
  "set (foldl (\<lambda>acc d. if d \<in> set s then set_add d acc else acc) acc g)
     = set acc \<union> (set g \<inter> set s)"
  by (induction g arbitrary: acc) (auto simp: set_add_def)

text \<open>
  Claim C8. For all strings \<open>g\<close> and \<open>s\<close> (the four-digit strings among them),
  \<open>feedbackDigits g s\<close> has no duplicates and each of its digits occurs in \<open>s\<close>; for the
  secret 1123 and the guess 1111 the result is the single digit 1, and
  \<open>countCorrectPositions\<close> of that guess and secret is 2.
\<close>

theorem feedbackDigits_distinct_subset:
  "distinct (feedbackDigits g s) \<and> set (feedbackDigits g s) \<subseteq> set s \<and>
   feedbackDigits ''1111'' ''1123'' = ''1'' \<and>
   countCorrectPositions ''1111'' ''1123'' = 2"
proof -
  have "distinct (feedbackDigits g s)"
    unfolding feedbackDigits_def by (rule feedback_fold_distinct) simp
  moreover have "set (feedbackDigits g s) \<subseteq> set s"
    unfolding feedbackDigits_def by (simp add: feedback_fold_set)
  moreover have "feedbackDigits ''1111'' ''1123'' = ''1''"
    by (simp add: feedbackDigits_def set_add_def)
  moreover have "countCorrectPositions ''1111'' ''1123'' = 2"
    by (simp add: countCorrectPositions_4)
  ultimately show ?thesis by simp
qed

section \<open>Properties of the payloads\<close>

lemma publicRoom_erase_secrets: "publicRoom (erase_secrets r) = publicRoom r"
  by (simp add: publicRoom_def erase_secrets_def case_prod_unfold comp_def)

lemma history_erase_secrets: "history (erase_secrets r) = history r"
  by (simp add: erase_secrets_def)

text \<open>
  Claim C10. The \<open>room-update\<close> payload \<open>publicRoom room\<close> and the \<open>history-update\<close> payload
  \<open>room.history.map(slimHistory)\<close> are the same for any two rooms that differ only in the
  players' secrets: no secret is read when they are built.
\<close>

theorem payloads_independent_of_secrets:
  assumes "erase_secrets r1 = erase_secrets r2"
  shows "publicRoom r1 = publicRoom r2 \<and>
         map slimHistory (history r1) = map slimHistory (history r2)"
proof -
  have "publicRoom r1 = publicRoom (erase_secrets r1)"
    by (simp only: publicRoom_erase_secrets)
  also have "\<dots> = publicRoom r2"
    by (simp only: assms publicRoom_erase_secrets)
  finally have p: "publicRoom r1 = publicRoom r2" .
  have "history r1 = history (erase_secrets r1)"
    by (simp only: history_erase_secrets)
  also have "\<dots> = history r2"
    by (simp only: assms history_erase_secrets)
  finally have "history r1 = history r2" .
  with p show ?thesis by simp
qed

theorem payloads_independent_of_secrets_witness:
  "publicRoom \<lparr> code = ''ABC123'', mode = ''CLASSIC'',
            players = [(1, \<lparr> name = ''Player A'', secret = Some ''1234'', ready = True \<rparr>),
                       (2, \<lparr> name = ''Player B'', secret = Some ''5678'', ready = True \<rparr>)],
            order = [1, 2], turnIndex = 0, winner = None, history = [] \<rparr>
   = publicRoom \<lparr> code = ''ABC123'', mode = ''CLASSIC'',
            players = [(1, \<lparr> name = ''Player A'', secret = Some ''9999'', ready = True \<rparr>),
                       (2, \<lparr> name = ''Player B'', secret = Some ''0000'', ready = True \<rparr>)],
            order = [1, 2], turnIndex = 0, winner = None, history = [] \<rparr>"
  using payloads_independent_of_secrets [of
     "\<lparr> code = ''ABC123'', mode = ''CLASSIC'',
            players = [(1, \<lparr> name = ''Player A'', secret = Some ''1234'', ready = True \<rparr>),
                       (2, \<lparr> name = ''Player B'', secret = Some ''5678'', ready = True \<rparr>)],
            order = [1, 2], turnIndex = 0, winner = None, history = [] \<rparr>"
     "\<lparr> code = ''ABC123'', mode = ''CLASSIC'',
            players = [(1, \<lparr> name = ''Player A'', secret = Some ''9999'', ready = True \<rparr>),
                       (2, \<lparr> name = ''Player B'', secret = Some ''0000'', ready = True \<rparr>)],
            order = [1, 2], turnIndex = 0, winner = None, history = [] \<rparr>"]
  by (simp add: erase_secrets_def)

section \<open>Properties of the handlers\<close>

lemma rooms_set_data [simp]: "rooms (set_data s f st) = rooms st"
  by (simp add: set_data_def split: option.splits)

lemma rooms_fold_set_data [simp]:
  "rooms (fold (\<lambda>i. set_data i f) xs st) = rooms st"
  by (induction xs arbitrary: st) simp_all

lemma rooms_set_room [simp]: "rooms (set_room c r st) = (rooms st)(c \<mapsto> r)"
  by (simp add: set_room_def)

lemma rooms_destroyRoom: "rooms (destroyRoom c st) = (rooms st)(c := None)"
  by (auto simp: destroyRoom_def Let_def split: option.splits)

lemma rooms_enqueue [simp]: "rooms (enqueue m s st) = rooms st"
  by (simp add: enqueue_def Let_def)

lemma rooms_dequeue [simp]: "rooms (dequeue m s st) = rooms st"
  by (simp add: dequeue_def)

lemma rooms_popOpponent [simp]: "rooms (snd (popOpponent m s st)) = rooms st"
  by (simp add: popOpponent_def split: prod.splits option.splits)

lemma rooms_leave_queue_first [simp]: "rooms (leave_queue_first s st) = rooms st"
  by (simp add: leave_queue_first_def split: option.splits)

lemma rooms_sweep_queues [simp]: "rooms (sweep_queues s st) = rooms st"
  by (simp add: sweep_queues_def)

lemma rooms_connect [simp]: "rooms (connect s st) = rooms st"
  by (simp add: connect_def)

lemma rooms_queue_leave [simp]: "rooms (queue_leave s st) = rooms st"
  by (simp add: queue_leave_def split: option.splits)

lemma queues_set_data [simp]: "queues (set_data s f st) = queues st"
  by (simp add: set_data_def split: option.splits)

lemma queues_set_room [simp]: "queues (set_room c r st) = queues st"
  by (simp add: set_room_def)

lemma sockets_set_room [simp]: "sockets (set_room c r st) = sockets st"
  by (simp add: set_room_def)

lemma sockets_enqueue [simp]: "sockets (enqueue m s st) = sockets st"
  by (simp add: enqueue_def Let_def)

lemma sockets_dequeue [simp]: "sockets (dequeue m s st) = sockets st"
  by (simp add: dequeue_def)

lemma sockets_set_data_same:
  "sockets st s = Some d \<Longrightarrow> sockets (set_data s f st) s = Some (f d)"
  by (simp add: set_data_def)

lemma sockets_set_data_other:
  "s' \<noteq> s \<Longrightarrow> sockets (set_data s f st) s' = sockets st s'"
  by (simp add: set_data_def split: option.splits)

lemma queue_of_set_data [simp]: "queue_of m (set_data s f st) = queue_of m st"
  by (simp add: queue_of_def)

lemma isInAnyQueue_set_data [simp]: "isInAnyQueue x (set_data s f st) = isInAnyQueue x st"
  by (simp add: isInAnyQueue_def)

subsection \<open>The invariant of the registry\<close>

lemma inv_init: "inv init"
  by (simp add: inv_def init_def)

lemma inv_rooms_eq: "rooms st' = rooms st \<Longrightarrow> inv st \<Longrightarrow> inv st'"
  by (simp add: inv_def)

lemma inv_set_room: "inv st \<Longrightarrow> room_inv c r \<Longrightarrow> inv (set_room c r st)"
  by (simp add: inv_def)

lemma inv_set_data: "inv st \<Longrightarrow> inv (set_data s f st)"
  by (simp add: inv_def)

lemma inv_enqueue: "inv st \<Longrightarrow> inv (enqueue m s st)"
  by (simp add: inv_def)

lemma inv_dequeue: "inv st \<Longrightarrow> inv (dequeue m s st)"
  by (simp add: inv_def)

lemma inv_popOpponent: "popOpponent m s st = (r, st') \<Longrightarrow> inv st \<Longrightarrow> inv st'"
  using rooms_popOpponent [of m s st] by (simp add: inv_def)

lemma inv_destroyRoom: "inv st \<Longrightarrow> inv (destroyRoom c st)"
  by (simp add: inv_def rooms_destroyRoom)

lemma inv_create_room: "inv st \<Longrightarrow> inv (create_room s nm md nid st)"
  by (simp add: create_room_def makeRoom_def Let_def inv_def room_inv_def)

lemma inv_join_room: "inv st \<Longrightarrow> inv (join_room s c nm st)"
  by (auto simp: join_room_def Let_def inv_def room_inv_def split: option.splits)

lemma inv_set_secret: "inv st \<Longrightarrow> inv (set_secret s c sec coin st)"
  by (auto simp: set_secret_def Let_def inv_def room_inv_def split: option.splits)

lemma inv_on_guess: "inv st \<Longrightarrow> inv (on_guess s c g now st)"
  by (auto simp: on_guess_def Let_def inv_def room_inv_def guess_item_def split: option.splits)

lemma inv_match_players: "inv st \<Longrightarrow> inv (match_players s opp m nid st)"
  by (auto simp: match_players_def makeRoom_def Let_def inv_def room_inv_def split: option.splits)

lemma inv_queue_join: "inv st \<Longrightarrow> inv (queue_join s md nm nid st)"
  by (auto simp: queue_join_def Let_def split: option.splits prod.splits
      intro!: inv_match_players inv_dequeue inv_enqueue
      intro: inv_popOpponent inv_set_data)

lemma inv_funpow: "(\<And>st. inv st \<Longrightarrow> inv (f st)) \<Longrightarrow> inv st \<Longrightarrow> inv ((f ^^ n) st)"
  by (induction n) simp_all

lemma inv_on_queue_join: "inv st \<Longrightarrow> inv (on_queue_join s md nm nid st)"
  by (auto simp: on_queue_join_def inv_funpow inv_queue_join split: option.splits)

lemma inv_reset_room: "inv st \<Longrightarrow> inv (reset_room c st)"
proof (cases "rooms st c")
  case None
  assume "inv st"
  with None show ?thesis by (simp add: reset_room_def)
next
  case (Some room)
  assume i: "inv st"
  then have "code room = c"
    using Some by (simp add: inv_def room_inv_def)
  then show ?thesis
    using Some i by (simp add: reset_room_def inv_destroyRoom inv_set_room room_inv_def)
qed

lemma inv_leave_room: "inv st \<Longrightarrow> inv (leave_room s c st)"
  by (auto simp: leave_room_def inv_destroyRoom split: option.splits)

lemma inv_disconnecting: "inv st \<Longrightarrow> inv (disconnecting s st)"
  by (simp add: disconnecting_def Let_def inv_destroyRoom inv_dequeue split: option.splits)

lemma inv_disconnect: "inv st \<Longrightarrow> inv (disconnect s st)"
  using inv_disconnecting [of st s] by (simp add: disconnect_def Let_def inv_def)

lemma inv_step: "inv st \<Longrightarrow> inv (step e st)"
  by (cases e)
    (auto simp: step_def inv_create_room inv_join_room inv_set_secret inv_on_guess
       inv_on_queue_join inv_reset_room inv_leave_room inv_disconnect
       intro: inv_rooms_eq)

lemma reachable_inv: "reachable st \<Longrightarrow> inv st"
  by (induction rule: reachable.induct) (simp_all add: inv_init inv_step)

lemma reachable_run: "reachable st \<Longrightarrow> reachable (run es st)"
  unfolding run_def by (induction es arbitrary: st) (simp_all add: reachable_step)

subsection \<open>The example runs, evaluated\<close>

lemma ex_forming_room:
  "rooms ex_forming ''ABC123'' =
     Some \<lparr> code = ''ABC123'', mode = ''CLASSIC'',
            players = [(1, \<lparr> name = ''Player A'', secret = None, ready = False \<rparr>)],
            order = [1], turnIndex = 0, winner = None, history = [] \<rparr>"
  by code_simp

lemma ex_forming_socket2:
  "sockets ex_forming 2 =
     Some \<lparr> roomCode = None, queueMode = None, playerName = None, queueJoinListeners = 0 \<rparr>"
  by code_simp

lemma ex_active_room:
  "rooms ex_active ''ABC123'' =
     Some \<lparr> code = ''ABC123'', mode = ''CLASSIC'',
            players = [(1, \<lparr> name = ''Player A'', secret = Some ''1234'', ready = True \<rparr>),
                       (2, \<lparr> name = ''Player B'', secret = Some ''5678'', ready = True \<rparr>)],
            order = [1, 2], turnIndex = 0, winner = None, history = [] \<rparr>"
  by code_simp

lemma ex_active_socket1:
  "sockets ex_active 1 =
     Some \<lparr> roomCode = Some ''ABC123'', queueMode = None, playerName = None,
            queueJoinListeners = 0 \<rparr>"
  by code_simp


lemma ex_finished_lookup: "rooms ex_finished ''ABC123'' = Some ex_finished_room"
  by code_simp

lemma ex_finished_step_guess:
  "rooms (step (Guess 1 ''ABC123'' ''5678'' 7) ex_active) ''ABC123'' = Some ex_finished_room"
  by code_simp

lemma ex_finished_step_reset:
  "rooms (step (ResetRoom 1 ''ABC123'') ex_finished) ''ABC123'' =
     Some \<lparr> code = ''ABC123'', mode = ''CLASSIC'',
            players = [(1, \<lparr> name = ''Player A'', secret = None, ready = False \<rparr>),
                       (2, \<lparr> name = ''Player B'', secret = None, ready = False \<rparr>)],
            order = [1, 2], turnIndex = 1, winner = None, history = [] \<rparr>"
  by code_simp

lemma ex_finished_socket1:
  "sockets ex_finished 1 =
     Some \<lparr> roomCode = Some ''ABC123'', queueMode = None, playerName = None,
            queueJoinListeners = 1 \<rparr>"
  by code_simp

lemma reachable_ex_forming: "reachable ex_forming"
  unfolding ex_forming_def by (intro reachable_run reachable_init)

lemma reachable_ex_finished: "reachable ex_finished"
  unfolding ex_finished_def ex_active_def ex_committing_def
  by (intro reachable_run reachable_init)

lemma reachable_ex_two_rooms: "reachable ex_two_rooms"
  unfolding ex_two_rooms_def by (intro reachable_run reachable_ex_forming)

lemma ex_two_rooms_room1:
  "rooms ex_two_rooms ''ABC123'' =
     Some \<lparr> code = ''ABC123'', mode = ''CLASSIC'',
            players = [(1, \<lparr> name = ''Player A'', secret = None, ready = False \<rparr>)],
            order = [1], turnIndex = 0, winner = None, history = [] \<rparr>"
  by code_simp

lemma ex_two_rooms_room2:
  "rooms ex_two_rooms ''XYZ789'' =
     Some \<lparr> code = ''XYZ789'', mode = ''CLASSIC'',
            players = [(2, \<lparr> name = ''Player A'', secret = None, ready = False \<rparr>)],
            order = [2], turnIndex = 0, winner = None, history = [] \<rparr>"
  by code_simp

lemma ex_lobby_socket1:
  "sockets ex_lobby 1 =
     Some \<lparr> roomCode = None, queueMode = None, playerName = None, queueJoinListeners = 1 \<rparr>"
  by code_simp

lemma ex_lobby_socket2:
  "sockets ex_lobby 2 =
     Some \<lparr> roomCode = None, queueMode = None, playerName = None, queueJoinListeners = 1 \<rparr>"
  by code_simp

lemma ex_lobby_queues:
  "queues ex_lobby = [(''CLASSIC'', []), (''REVEAL_DIGITS'', []), (''REVEAL_POSITIONS'', [])]"
  by code_simp

lemma reachable_ex_lobby: "reachable ex_lobby"
  unfolding ex_lobby_def by (intro reachable_run reachable_init)

lemma reachable_ex_self_join: "reachable ex_self_join"
  unfolding ex_self_join_def by (intro reachable_run reachable_init)

subsection \<open>reset-room\<close>

text \<open>
  Claim C9. When a connected socket sends \<open>reset-room\<close> for a room that has fewer than two
  players, the room is destroyed: afterwards the registry has no room under its code.
\<close>

theorem reset_room_destroys_small_room:
  assumes "sockets st s = Some d" and "rooms st c = Some room"
    and "length (players room) < 2"
  shows "rooms (step (ResetRoom s c) st) c = None"
  using assms by (simp add: step_def reset_room_def rooms_destroyRoom)

theorem reset_room_destroys_small_room_witness:
  "rooms ex_forming ''ABC123'' \<noteq> None \<and>
   rooms (step (ResetRoom 2 ''ABC123'') ex_forming) ''ABC123'' = None"
  using reset_room_destroys_small_room [OF ex_forming_socket2 ex_forming_room]
  by (simp add: ex_forming_room)

text \<open>
  The older server file differs here: its \<open>reset-room\<close> keeps a room with fewer than two
  players registered.
\<close>

lemma reset_room_older_keeps_room:
  "rooms st c = Some room \<Longrightarrow> rooms (reset_room_older c st) c \<noteq> None"
  by (simp add: reset_room_older_def)

subsection \<open>guess\<close>

text \<open>
  Claim C7. A \<open>guess\<close> event for an existing room whose sender is not the connection at
  \<open>order[turnIndex % order.length]\<close> changes nothing: the whole state, and with it the
  room's history, turnIndex and winner, is as before.
\<close>

theorem out_of_turn_guess_is_dropped:
  assumes "rooms st c = Some room"
    and "at (order room) (turnIndex room mod length (order room)) \<noteq> Some s"
  shows "step (Guess s c g now) st = st"
  using assms by (auto simp: step_def on_guess_def at_def split: if_splits)

theorem out_of_turn_guess_is_dropped_witness:
  "at [1, 2] (0 mod length [1, 2 :: sid]) \<noteq> Some (2 :: sid) \<and>
   step (Guess 2 ''ABC123'' ''1234'' 7) ex_active = ex_active"
  using out_of_turn_guess_is_dropped [OF ex_active_room, of 2 "''1234''" 7]
  by (simp add: at_def)

text \<open>
  Claim C6, as stated: in a winner-free session with two players, an in-turn, well-formed
  guess against a committed secret that does not score 4 passes the turn to the other seat.
  It fails in a reachable room: \<open>join-room\<close> does not test whether the sender is a player of
  the room already, so the room of the example has the players 1 and 2 and the order
  \<open>[1, 1, 2]\<close>; socket 1 is in turn, its guess 0000 is accepted with no correct position,
  \<open>turnIndex\<close> becomes \<open>(0 + 1) % 3 = 1\<close>, and the connection in turn is socket 1 again.
\<close>

theorem guess_turn_alternation_counterexample:
  "reachable ex_self_join \<and>
   map_option (map fst \<circ> players) (rooms ex_self_join ''ABC123'') = Some [1, 2] \<and>
   map_option (map secret \<circ> map snd \<circ> players) (rooms ex_self_join ''ABC123'')
     = Some [Some ''1234'', Some ''5678''] \<and>
   map_option winner (rooms ex_self_join ''ABC123'') = Some None \<and>
   map_option order (rooms ex_self_join ''ABC123'') = Some [1, 1, 2] \<and>
   map_option seat_in_turn (rooms ex_self_join ''ABC123'') = Some (Some 1) \<and>
   test4 ''0000'' \<and>
   map_option (map correctCount \<circ> history)
     (rooms (step (Guess 1 ''ABC123'' ''0000'' 7) ex_self_join) ''ABC123'') = Some [0] \<and>
   map_option turnIndex (rooms (step (Guess 1 ''ABC123'' ''0000'' 7) ex_self_join) ''ABC123'')
     = Some 1 \<and>
   map_option seat_in_turn (rooms (step (Guess 1 ''ABC123'' ''0000'' 7) ex_self_join) ''ABC123'')
     = Some (Some 1)"
proof -
  have "map_option (map fst \<circ> players) (rooms ex_self_join ''ABC123'') = Some [1, 2] \<and>
   map_option (map secret \<circ> map snd \<circ> players) (rooms ex_self_join ''ABC123'')
     = Some [Some ''1234'', Some ''5678''] \<and>
   map_option winner (rooms ex_self_join ''ABC123'') = Some None \<and>
   map_option order (rooms ex_self_join ''ABC123'') = Some [1, 1, 2] \<and>
   map_option seat_in_turn (rooms ex_self_join ''ABC123'') = Some (Some 1) \<and>
   test4 ''0000'' \<and>
   map_option (map correctCount \<circ> history)
     (rooms (step (Guess 1 ''ABC123'' ''0000'' 7) ex_self_join) ''ABC123'') = Some [0] \<and>
   map_option turnIndex (rooms (step (Guess 1 ''ABC123'' ''0000'' 7) ex_self_join) ''ABC123'')
     = Some 1 \<and>
   map_option seat_in_turn (rooms (step (Guess 1 ''ABC123'' ''0000'' 7) ex_self_join) ''ABC123'')
     = Some (Some 1)"
    by code_simp
  with reachable_ex_self_join show ?thesis by simp
qed

text \<open>
  Claim C6, amended. In a room without a winner, let the connection in turn send a
  well-formed guess while the opponent \<open>opp\<close> (the first entry of \<open>order\<close> that is not the
  sender) has a committed secret \<open>sec\<close>. If the guess scores 4, \<open>turnIndex\<close> is unchanged and
  the winner is the sender. If it does not, \<open>turnIndex\<close> becomes
  \<open>(turnIndex + 1) % order.length\<close> and there is still no winner; the connection in turn is
  then the opponent whenever \<open>order\<close> consists of two distinct connections.
\<close>

theorem guess_turn_alternation:
  assumes conn: "sockets st s = Some d"
    and room: "rooms st c = Some room"
    and nowin: "winner room = None"
    and turn: "seat_in_turn room = Some s"
    and fmt: "test4 g"
    and opp: "find (\<lambda>i. i \<noteq> s) (order room) = Some opp"
    and committed: "map_of (players room) opp = Some p" "secret p = Some sec" "sec \<noteq> []"
  shows "\<exists>room'. rooms (step (Guess s c g now) st) c = Some room' \<and>
           order room' = order room \<and>
           (if countCorrectPositions g sec = 4
            then turnIndex room' = turnIndex room \<and> winner room' = Some s
            else turnIndex room' = (turnIndex room + 1) mod length (order room) \<and>
                 winner room' = None \<and>
                 (\<forall>a b. order room = [a, b] \<and> a \<noteq> b \<longrightarrow> seat_in_turn room' = Some opp))"
proof -
  let ?t = "turnIndex room"
  let ?n = "length (order room)"
  have ne: "order room \<noteq> []" and turn': "order room ! (?t mod ?n) = s"
    using turn by (auto simp: seat_in_turn_def at_def split: if_splits)
  have two: "at (order room) ((?t + 1) mod ?n mod ?n) = Some opp"
    if o: "order room = [a, b]" and ab: "a \<noteq> b" for a b
  proof -
    have len: "?n = 2" using o by simp
    have t2: "order room ! (?t mod 2) = s" using turn' unfolding len .
    consider (zero) "?t mod 2 = 0" | (one) "?t mod 2 = 1"
      by arith
    then have "order room ! ((?t + 1) mod 2 mod 2) = opp"
    proof cases
      case zero
      then have "s = a" using t2 o by simp
      moreover from this have "opp = b" using opp o ab by auto
      moreover have "(?t + 1) mod 2 = 1" using zero by arith
      ultimately show ?thesis using o by simp
    next
      case one
      then have "s = b" using t2 o by simp
      moreover from this have "opp = a" using opp o ab by auto
      moreover have "(?t + 1) mod 2 = 0" using one by arith
      ultimately show ?thesis using o by simp
    qed
    then show ?thesis
      unfolding len by (simp add: at_def len)
  qed
  define room' where "room' =
    (if countCorrectPositions g sec = 4
     then room\<lparr>history := history room @ [guess_item room s g sec now], winner := Some s\<rparr>
     else room\<lparr>history := history room @ [guess_item room s g sec now],
                turnIndex := (?t + 1) mod ?n\<rparr>)"
  have r: "rooms (step (Guess s c g now) st) c = Some room'"
    using conn room nowin turn' fmt opp committed ne
    by (simp add: step_def on_guess_def Let_def truthy_def guess_item_def room'_def)
  have "seat_in_turn room' = Some opp"
    if "countCorrectPositions g sec \<noteq> 4" and "order room = [a, b]" and "a \<noteq> b" for a b
    using two [OF that(2,3)] that(1) by (simp add: room'_def seat_in_turn_def)
  then show ?thesis
    using r nowin by (auto simp: room'_def)
qed

theorem guess_turn_alternation_witness:
  "seat_in_turn \<lparr> code = ''ABC123'', mode = ''CLASSIC'',
            players = [(1, \<lparr> name = ''Player A'', secret = Some ''1234'', ready = True \<rparr>),
                       (2, \<lparr> name = ''Player B'', secret = Some ''5678'', ready = True \<rparr>)],
            order = [1, 2], turnIndex = 0, winner = None, history = [] \<rparr> = Some 1 \<and>
   find (\<lambda>i. i \<noteq> 1) [1, 2 :: sid] = Some 2 \<and>
   test4 ''5670'' \<and> test4 ''5678'' \<and>
   (\<exists>room'. rooms (step (Guess 1 ''ABC123'' ''5670'' 7) ex_active) ''ABC123'' = Some room' \<and>
      turnIndex room' = 1 \<and> seat_in_turn room' = Some 2 \<and> winner room' = None) \<and>
   (\<exists>room'. rooms (step (Guess 1 ''ABC123'' ''5678'' 7) ex_active) ''ABC123'' = Some room' \<and>
      turnIndex room' = 0 \<and> winner room' = Some 1)"
  using
    guess_turn_alternation [OF ex_active_socket1 ex_active_room, of "''5670''" 2
      "\<lparr> name = ''Player B'', secret = Some ''5678'', ready = True \<rparr>" "''5678''" 7]
    guess_turn_alternation [OF ex_active_socket1 ex_active_room, of "''5678''" 2
      "\<lparr> name = ''Player B'', secret = Some ''5678'', ready = True \<rparr>" "''5678''" 7]
  by (auto simp: test4_def isDigit_def countCorrectPositions_4 seat_in_turn_def at_def)

lemma on_guess_keeps_winner_iff:
  assumes "rooms st c = Some room" and "winner_iff room"
    and "rooms (on_guess s c g now st) c = Some room'"
  shows "winner_iff room'"
  using assms
  by (auto simp: on_guess_def Let_def winner_iff_def guess_item_def
      split: option.splits if_splits)

lemma reset_room_keeps_winner_iff:
  assumes "rooms st c = Some room" and "rooms (reset_room c st) c = Some room'"
  shows "winner_iff room'"
  using assms
  by (auto simp: reset_room_def winner_iff_def rooms_destroyRoom split: if_splits)

text \<open>
  Claim C3, as stated: in every reachable state \<open>winner\<close> is set exactly when the history
  has an entry with \<open>correctCount = 4\<close>. It fails after a finished game: \<open>set-secret\<close>, finding
  two ready players, sets \<open>winner\<close> to \<open>null\<close> and keeps the history with its winning entry.
\<close>

theorem winner_iff_counterexample:
  "reachable ex_recommitted \<and>
   map_option winner (rooms ex_recommitted ''ABC123'') = Some None \<and>
   map_option (map correctCount \<circ> history) (rooms ex_recommitted ''ABC123'') = Some [4]"
proof -
  have "reachable ex_recommitted"
    unfolding ex_recommitted_def by (intro reachable_run reachable_ex_finished)
  moreover have "map_option winner (rooms ex_recommitted ''ABC123'') = Some None"
    by code_simp
  moreover have "map_option (map correctCount \<circ> history) (rooms ex_recommitted ''ABC123'')
      = Some [4]"
    by code_simp
  ultimately show ?thesis by simp
qed

text \<open>
  Claim C3, amended. In every reachable state a room whose \<open>winner\<close> is set has a history
  entry by the winner with \<open>correctCount = 4\<close>. The equivalence itself is kept by \<open>guess\<close>
  and established by \<open>reset-room\<close> (for the room of the event, sent by a connected socket);
  nothing of the kind is stated of \<open>set-secret\<close>.
\<close>

theorem winner_record_invariant:
  assumes room: "rooms st c = Some room"
  shows "(reachable st \<and> winner room = Some w \<longrightarrow>
            (\<exists>h \<in> set (history room). correctCount h = 4 \<and> by_sid h = w)) \<and>
         (sockets st s \<noteq> None \<and> winner_iff room \<and>
            rooms (step (Guess s c g now) st) c = Some room' \<longrightarrow> winner_iff room') \<and>
         (sockets st s \<noteq> None \<and>
            rooms (step (ResetRoom s c) st) c = Some room' \<longrightarrow> winner_iff room')"
proof (intro conjI impI)
  assume a: "reachable st \<and> winner room = Some w"
  then have "room_inv c room"
    using reachable_inv [of st] room by (simp add: inv_def)
  then have "list_ex (\<lambda>h. correctCount h = 4 \<and> by_sid h = w) (history room)"
    using a by (simp add: room_inv_def)
  then show "\<exists>h \<in> set (history room). correctCount h = 4 \<and> by_sid h = w"
    by (simp add: list_ex_iff)
next
  assume a: "sockets st s \<noteq> None \<and> winner_iff room \<and>
      rooms (step (Guess s c g now) st) c = Some room'"
  then have "rooms (on_guess s c g now st) c = Some room'"
    by (auto simp: step_def)
  with room a show "winner_iff room'"
    using on_guess_keeps_winner_iff by blast
next
  assume a: "sockets st s \<noteq> None \<and> rooms (step (ResetRoom s c) st) c = Some room'"
  then have "rooms (reset_room c st) c = Some room'"
    by (auto simp: step_def)
  with room show "winner_iff room'"
    using reset_room_keeps_winner_iff by blast
qed

theorem winner_record_invariant_witness:
  "reachable ex_finished \<and> winner ex_finished_room = Some 1 \<and>
   (\<exists>h \<in> set (history ex_finished_room). correctCount h = 4 \<and> by_sid h = 1) \<and>
   winner_iff ex_finished_room \<and>
   (\<exists>room'. rooms (step (ResetRoom 1 ''ABC123'') ex_finished) ''ABC123'' = Some room' \<and>
      winner_iff room')"
  using winner_record_invariant [OF ex_finished_lookup, of 1 1 "''5678''" 7]
    winner_record_invariant [OF ex_active_room, of 1 1 "''5678''" 7 ex_finished_room]
    reachable_ex_finished ex_finished_step_guess ex_active_socket1 ex_finished_socket1
    ex_finished_step_reset
  by (simp add: ex_finished_room_def winner_iff_def)

subsection \<open>set-secret\<close>







subsection \<open>makeRoom\<close>

text \<open>
  Claim C4, as stated: \<open>makeRoom\<close> draws again when the code is that of a live room. It does
  not: socket 1 waits in room ABC123; a \<open>makeRoom\<close> whose \<open>nanoid\<close> gives ABC123 returns a room
  with this code and the registry then holds the new, empty room under it.
\<close>

theorem makeRoom_retry_counterexample:
  "map_option (map fst \<circ> players) (rooms ex_forming ''ABC123'') = Some [1] \<and>
   code (fst (makeRoom ''ABC123'' ''CLASSIC'' ex_forming)) = ''ABC123'' \<and>
   map_option (map fst \<circ> players)
     (rooms (snd (makeRoom ''ABC123'' ''CLASSIC'' ex_forming)) ''ABC123'') = Some []"
  by code_simp

text \<open>
  Claim C4, amended. \<open>makeRoom\<close> registers the new room under the upper-cased string that
  \<open>nanoid\<close> returned, in place of whatever the registry held under this code. In every
  reachable state every registered room is stored under its own code, so two rooms
  registered under different keys have different codes.
\<close>

theorem registry_codes_distinct:
  "(reachable st \<and> rooms st c1 = Some r1 \<and> rooms st c2 = Some r2 \<and> c1 \<noteq> c2 \<longrightarrow>
      code r1 = c1 \<and> code r2 = c2 \<and> code r1 \<noteq> code r2) \<and>
   code (fst (makeRoom nid m st')) = toUpperCase nid \<and>
   rooms (snd (makeRoom nid m st')) = (rooms st')(toUpperCase nid \<mapsto> fst (makeRoom nid m st'))"
proof (intro conjI impI)
  assume a: "reachable st \<and> rooms st c1 = Some r1 \<and> rooms st c2 = Some r2 \<and> c1 \<noteq> c2"
  then have "room_inv c1 r1" and "room_inv c2 r2"
    using reachable_inv [of st] by (simp_all add: inv_def)
  then have "code r1 = c1 \<and> code r2 = c2"
    by (simp add: room_inv_def)
  with a show "code r1 = c1" and "code r2 = c2" and "code r1 \<noteq> code r2"
    by simp_all
next
  show "code (fst (makeRoom nid m st')) = toUpperCase nid"
    by (simp add: makeRoom_def Let_def)
  show "rooms (snd (makeRoom nid m st')) =
      (rooms st')(toUpperCase nid \<mapsto> fst (makeRoom nid m st'))"
    by (simp add: makeRoom_def Let_def)
qed

theorem registry_codes_distinct_witness:
  "reachable ex_two_rooms \<and> rooms ex_two_rooms ''ABC123'' \<noteq> None \<and>
   rooms ex_two_rooms ''XYZ789'' \<noteq> None \<and>
   map_option code (rooms ex_two_rooms ''ABC123'') = Some ''ABC123'' \<and>
   map_option code (rooms ex_two_rooms ''XYZ789'') = Some ''XYZ789''"
  using registry_codes_distinct [of ex_two_rooms "''ABC123''"
      "\<lparr> code = ''ABC123'', mode = ''CLASSIC'',
         players = [(1, \<lparr> name = ''Player A'', secret = None, ready = False \<rparr>)],
         order = [1], turnIndex = 0, winner = None, history = [] \<rparr>"
      "''XYZ789''"
      "\<lparr> code = ''XYZ789'', mode = ''CLASSIC'',
         players = [(2, \<lparr> name = ''Player A'', secret = None, ready = False \<rparr>)],
         order = [2], turnIndex = 0, winner = None, history = [] \<rparr>"]
    reachable_ex_two_rooms ex_two_rooms_room1 ex_two_rooms_room2
  by simp

subsection \<open>queue:join\<close>

lemma in_update_member:
  "s \<in> set q \<Longrightarrow> list_ex (\<lambda>(k, q). s \<in> set q) (AList.update m q al)"
  by (induction al) auto

lemma in_update_bound:
  "list_ex (\<lambda>(k, q). s \<in> set q) (AList.update m q al) \<Longrightarrow>
     s \<in> set q \<or> list_ex (\<lambda>(k, q). s \<in> set q) al"
  by (induction al) (auto split: if_splits)

lemma funpow_fixed: "f (f x) = f x \<Longrightarrow> 0 < n \<Longrightarrow> (f ^^ n) x = f x"
proof (induction n)
  case 0
  then show ?case by simp
next
  case (Suc n)
  show ?case
  proof (cases "n = 0")
    case True
    then show ?thesis by simp
  next
    case False
    with Suc have "(f ^^ n) x = f x" by simp
    with Suc.prems(1) show ?thesis by simp
  qed
qed

lemma queue_join_rejected_queued:
  "isInAnyQueue s st \<Longrightarrow> queue_join s md nm nid st = st"
  by (simp add: queue_join_def Let_def split: option.splits)

lemma queue_join_rejected_in_room:
  "sockets st s = Some d \<Longrightarrow> truthy (roomCode d) \<Longrightarrow> queue_join s md nm nid st = st"
  by (simp add: queue_join_def Let_def)

text \<open>The joining socket waits when the queue of its mode is empty.\<close>

lemma queue_join_waits:
  assumes "sockets st a = Some da" and "\<not> truthy (roomCode da)" and "\<not> isInAnyQueue a st"
    and "toUpperCase (or_default md ''CLASSIC'') = m" and "map_of (queues st) m = Some []"
  shows "queue_join a md nm nid st =
           (set_data a (\<lambda>d. d\<lparr>playerName := Some (or_default (map_option trim nm) ''Player''),
                               queueMode := Some m\<rparr>) st)
             \<lparr>queues := AList.update m [a] (queues st)\<rparr>"
  using assms
  by (simp add: queue_join_def Let_def enqueue_def popOpponent_def queue_of_def
      AList.update_conv')

lemma queue_join_matches:
  assumes "sockets st b = Some db" and "\<not> truthy (roomCode db)" and "\<not> isInAnyQueue b st"
    and "toUpperCase (or_default md ''CLASSIC'') = m" and "map_of (queues st) m = Some [a]"
    and "a \<noteq> b" and "sockets st a = Some da"
  shows "queue_join b md nm nid st =
           match_players b a m nid
             ((set_data b (\<lambda>d. d\<lparr>playerName := Some (or_default (map_option trim nm) ''Player''),
                                 queueMode := Some m\<rparr>) st)
                \<lparr>queues := AList.update m [] (queues st)\<rparr>)"
  using assms
  by (simp add: queue_join_def Let_def enqueue_def dequeue_def popOpponent_def queue_of_def
      AList.update_conv' sockets_set_data_other)

lemma match_players_effect:
  assumes "sockets st me = Some d" and "sockets st opp = Some od" and "opp \<noteq> me"
  shows "rooms (match_players me opp m nid st) =
           (rooms st)(toUpperCase nid \<mapsto>
              \<lparr> code = toUpperCase nid, mode = m,
                players = [(me, new_player (or_default (playerName d) ''Player A'')),
                           (opp, new_player (or_default (playerName od) ''Player B''))],
                order = [me, opp], turnIndex = 0, winner = None, history = [] \<rparr>)"
    and "queues (match_players me opp m nid st) = queues st"
    and "sockets (match_players me opp m nid st) me = Some (d\<lparr>roomCode := Some (toUpperCase nid)\<rparr>)"
    and "sockets (match_players me opp m nid st) opp = Some (od\<lparr>roomCode := Some (toUpperCase nid)\<rparr>)"
  using assms
  by (simp_all add: match_players_def makeRoom_def Let_def sockets_set_data_same
      sockets_set_data_other set_data_def)

lemma isInAnyQueue_enqueue: "isInAnyQueue s (enqueue m s st)"
  by (simp add: isInAnyQueue_def enqueue_def Let_def in_update_member)

lemma splice_first_neq: "splice_first e xs = (Some x, ys) \<Longrightarrow> x \<noteq> e"
  by (induction xs arbitrary: ys) (auto split: if_splits prod.splits)

lemma popOpponent_Some:
  "popOpponent m e st = (Some x, st') \<Longrightarrow> x \<noteq> e \<and> sockets st' = sockets st"
  by (auto simp: popOpponent_def split: prod.splits option.splits dest: splice_first_neq)

lemma queue_join_idem:
  assumes "nid \<noteq> []"
  shows "queue_join me md nm nid' (queue_join me md nm nid st) = queue_join me md nm nid st"
proof (cases "sockets st me")
  case None
  then show ?thesis by (simp add: queue_join_def)
next
  case (Some d)
  let ?m = "toUpperCase (or_default md ''CLASSIC'')"
  let ?f = "\<lambda>d. d\<lparr>playerName := Some (or_default (map_option trim nm) ''Player''),
                    queueMode := Some ?m\<rparr>"
  let ?st2 = "enqueue ?m me (set_data me ?f st)"
  show ?thesis
  proof (cases "map_of (queues st) ?m = None \<or> truthy (roomCode d) \<or> isInAnyQueue me st")
    case True
    then have "queue_join me md nm nid st = st" and "queue_join me md nm nid' st = st"
      using Some by (auto simp: queue_join_def Let_def)
    then show ?thesis by simp
  next
    case False
    obtain r st3 where pop: "popOpponent ?m me ?st2 = (r, st3)"
      by (cases "popOpponent ?m me ?st2") auto
    show ?thesis
    proof (cases r)
      case None
      then have "queue_join me md nm nid st = ?st2"
        using Some False pop by (auto simp: queue_join_def Let_def)
      then show ?thesis
        by (simp add: queue_join_rejected_queued isInAnyQueue_enqueue)
    next
      case opp: (Some opp)
      let ?st4 = "dequeue ?m me st3"
      from pop opp have neq: "opp \<noteq> me" and socks: "sockets st3 = sockets ?st2"
        using popOpponent_Some [of ?m me ?st2 opp st3] by simp_all
      have me4: "sockets ?st4 me = Some (?f d)"
        using Some by (simp add: socks sockets_set_data_same)
      show ?thesis
      proof (cases "sockets ?st4 opp")
        case None
        then have "queue_join me md nm nid st = enqueue ?m me ?st4"
          using Some False pop opp by (auto simp: queue_join_def Let_def)
        then show ?thesis
          by (simp add: queue_join_rejected_queued isInAnyQueue_enqueue)
      next
        case od: (Some od)
        then have eq: "queue_join me md nm nid st = match_players me opp ?m nid ?st4"
          using Some False pop opp by (auto simp: queue_join_def Let_def)
        have "sockets (match_players me opp ?m nid ?st4) me =
            Some ((?f d)\<lparr>roomCode := Some (toUpperCase nid)\<rparr>)"
          using me4 od neq by (rule match_players_effect(3))
        moreover have "truthy (roomCode ((?f d)\<lparr>roomCode := Some (toUpperCase nid)\<rparr>))"
          using assms by (simp add: truthy_def toUpperCase_def)
        ultimately show ?thesis
          unfolding eq by (rule queue_join_rejected_in_room)
      qed
    qed
  qed
qed

text \<open>
  So an event that reaches at least one listener does what one run of the listener does,
  and at most one run per event draws a room code.
\<close>

lemma on_queue_join_once:
  assumes "sockets st me = Some d" and "0 < queueJoinListeners d" and "nid \<noteq> []"
  shows "on_queue_join me md nm nid st = queue_join me md nm nid st"
  using assms by (simp add: on_queue_join_def funpow_fixed queue_join_idem)

text \<open>
  The listener is registered by the \<open>guess\<close> handler only: on a socket none of whose guesses
  has been accepted, a \<open>queue:join\<close> event finds no listener and nothing happens.
\<close>

lemma queue_join_without_listener:
  "sockets st s = Some d \<Longrightarrow> queueJoinListeners d = 0 \<Longrightarrow> step (QueueJoin s md nm nid) st = st"
  by (simp add: step_def on_queue_join_def)

lemma queue_join_fresh_connections:
  "rooms (run [Connect 1, Connect 2, QueueJoin 1 None None ''room01'',
               QueueJoin 2 None None ''room02''] init) ''ROOM02'' = None \<and>
   queues (run [Connect 1, Connect 2, QueueJoin 1 None None ''room01'',
               QueueJoin 2 None None ''room02''] init) = queues init"
  by code_simp

text \<open>
  Claim C1, as stated: any two distinct connections, in no room and in no queue, that send
  \<open>queue:join\<close> with the same mode end up together in one new session and in no queue. It
  fails when a third connection already waits in the queue of that mode: sockets 1 and 2 are
  in no room and no queue while socket 3 waits; socket 1 joins and is paired with socket 3;
  socket 2 joins, no session is created for it and it stays in the queue.
\<close>

theorem queue_join_pairs_two_counterexample:
  "reachable ex_third_waiting \<and>
   map_option roomCode (sockets ex_third_waiting 1) = Some None \<and>
   map_option roomCode (sockets ex_third_waiting 2) = Some None \<and>
   \<not> isInAnyQueue 1 ex_third_waiting \<and> \<not> isInAnyQueue 2 ex_third_waiting \<and>
   map_option (map fst \<circ> players)
     (rooms (run [QueueJoin 1 None None ''room04'', QueueJoin 2 None None ''room05'']
        ex_third_waiting) ''ROOM04'') = Some [1, 3] \<and>
   rooms (run [QueueJoin 1 None None ''room04'', QueueJoin 2 None None ''room05'']
        ex_third_waiting) ''ROOM05'' = None \<and>
   isInAnyQueue 2 (run [QueueJoin 1 None None ''room04'', QueueJoin 2 None None ''room05'']
        ex_third_waiting)"
proof -
  have "reachable ex_third_waiting"
    unfolding ex_third_waiting_def by (intro reachable_run reachable_ex_lobby)
  moreover have
    "map_option roomCode (sockets ex_third_waiting 1) = Some None \<and>
     map_option roomCode (sockets ex_third_waiting 2) = Some None \<and>
     \<not> isInAnyQueue 1 ex_third_waiting \<and> \<not> isInAnyQueue 2 ex_third_waiting \<and>
     map_option (map fst \<circ> players)
       (rooms (run [QueueJoin 1 None None ''room04'', QueueJoin 2 None None ''room05'']
          ex_third_waiting) ''ROOM04'') = Some [1, 3] \<and>
     rooms (run [QueueJoin 1 None None ''room04'', QueueJoin 2 None None ''room05'']
          ex_third_waiting) ''ROOM05'' = None \<and>
     isInAnyQueue 2 (run [QueueJoin 1 None None ''room04'', QueueJoin 2 None None ''room05'']
          ex_third_waiting)"
    by code_simp
  ultimately show ?thesis by simp
qed

text \<open>
  Claim C1, amended. Let \<open>a\<close> and \<open>b\<close> be two distinct connected sockets, each with a
  \<open>queue:join\<close> listener, in no room and in no queue, and let the queue of the mode \<open>m\<close> be
  empty. When \<open>a\<close> and then \<open>b\<close> send \<open>queue:join\<close> with mode \<open>m\<close>, the first event creates
  no room, the second registers exactly one new room, whose players and order are \<open>b\<close> and
  \<open>a\<close>, and afterwards neither is in any queue.
\<close>

theorem queue_join_pairs_two:
  assumes ab: "a \<noteq> b"
    and sa: "sockets st a = Some da" and sb: "sockets st b = Some db"
    and la: "0 < queueJoinListeners da" and lb: "0 < queueJoinListeners db"
    and ra: "\<not> truthy (roomCode da)" and rb: "\<not> truthy (roomCode db)"
    and qa: "\<not> isInAnyQueue a st" and qb: "\<not> isInAnyQueue b st"
    and ma: "toUpperCase (or_default mda ''CLASSIC'') = m"
    and mb: "toUpperCase (or_default mdb ''CLASSIC'') = m"
    and empty: "map_of (queues st) m = Some []"
    and nid: "nid2 \<noteq> []"
  shows "rooms (step (QueueJoin a mda nma nid1) st) = rooms st \<and>
         (\<exists>room. rooms (step (QueueJoin b mdb nmb nid2) (step (QueueJoin a mda nma nid1) st))
                    = (rooms st)(toUpperCase nid2 \<mapsto> room) \<and>
                  code room = toUpperCase nid2 \<and> mode room = m \<and>
                  map fst (players room) = [b, a] \<and> order room = [b, a]) \<and>
         \<not> isInAnyQueue a (step (QueueJoin b mdb nmb nid2) (step (QueueJoin a mda nma nid1) st)) \<and>
         \<not> isInAnyQueue b (step (QueueJoin b mdb nmb nid2) (step (QueueJoin a mda nma nid1) st))"
proof -
  let ?fa = "\<lambda>d. d\<lparr>playerName := Some (or_default (map_option trim nma) ''Player''),
                     queueMode := Some m\<rparr>"
  let ?fb = "\<lambda>d. d\<lparr>playerName := Some (or_default (map_option trim nmb) ''Player''),
                     queueMode := Some m\<rparr>"
  define A where "A = (set_data a ?fa st)\<lparr>queues := AList.update m [a] (queues st)\<rparr>"
  have once_a: "queue_join a mda nma nid1 st = A"
    unfolding A_def using sa ra qa ma empty by (rule queue_join_waits)
  have A_queued: "isInAnyQueue a A"
    by (simp add: A_def isInAnyQueue_def in_update_member)
  have "queue_join a mda nma nid1 (queue_join a mda nma nid1 st) = queue_join a mda nma nid1 st"
    unfolding once_a using A_queued by (rule queue_join_rejected_queued)
  then have "(queue_join a mda nma nid1 ^^ queueJoinListeners da) st = A"
    using la once_a by (simp add: funpow_fixed)
  then have step1: "step (QueueJoin a mda nma nid1) st = A"
    using sa by (simp add: step_def on_queue_join_def)
  have A_rooms: "rooms A = rooms st"
    by (simp add: A_def)
  have A_a: "sockets A a = Some (?fa da)"
    using sa by (simp add: A_def sockets_set_data_same)
  have A_b: "sockets A b = Some db"
    using sb ab by (simp add: A_def sockets_set_data_other)
  have A_m: "map_of (queues A) m = Some [a]"
    by (simp add: A_def AList.update_conv')
  have A_qb: "\<not> isInAnyQueue b A"
    using qb ab in_update_bound [of b m "[a]" "queues st"]
    by (auto simp: A_def isInAnyQueue_def)
  define B0 where "B0 = (set_data b ?fb A)\<lparr>queues := AList.update m [] (queues A)\<rparr>"
  define B where "B = match_players b a m nid2 B0"
  have once_b: "queue_join b mdb nmb nid2 A = B"
    unfolding B_def B0_def using A_b rb A_qb mb A_m ab A_a by (rule queue_join_matches)
  have B0_b: "sockets B0 b = Some (?fb db)"
    using A_b by (simp add: B0_def sockets_set_data_same)
  have B0_a: "sockets B0 a = Some (?fa da)"
    using A_a ab by (simp add: B0_def sockets_set_data_other)
  note eff = match_players_effect [OF B0_b B0_a ab, of m nid2]
  have B_b: "sockets B b = Some ((?fb db)\<lparr>roomCode := Some (toUpperCase nid2)\<rparr>)"
    unfolding B_def by (rule eff(3))
  have "truthy (roomCode ((?fb db)\<lparr>roomCode := Some (toUpperCase nid2)\<rparr>))"
    using nid by (simp add: truthy_def toUpperCase_def)
  with B_b have "queue_join b mdb nmb nid2 B = B"
    by (rule queue_join_rejected_in_room)
  then have "(queue_join b mdb nmb nid2 ^^ queueJoinListeners db) A = B"
    using lb once_b by (simp add: funpow_fixed)
  then have step2: "step (QueueJoin b mdb nmb nid2) A = B"
    using A_b by (simp add: step_def on_queue_join_def)
  have B_queues: "queues B = AList.update m [] (queues st)"
    unfolding B_def eff(2) by (simp add: B0_def A_def)
  have B_rooms: "rooms B = (rooms st)(toUpperCase nid2 \<mapsto>
      \<lparr> code = toUpperCase nid2, mode = m,
        players = [(b, new_player (or_default (playerName (?fb db)) ''Player A'')),
                   (a, new_player (or_default (playerName (?fa da)) ''Player B''))],
        order = [b, a], turnIndex = 0, winner = None, history = [] \<rparr>)"
    unfolding B_def eff(1) by (simp add: B0_def A_rooms)
  have B_qa: "\<not> isInAnyQueue a B"
    using qa in_update_bound [of a m "[]" "queues st"]
    by (auto simp: B_queues isInAnyQueue_def)
  have B_qb: "\<not> isInAnyQueue b B"
    using qb in_update_bound [of b m "[]" "queues st"]
    by (auto simp: B_queues isInAnyQueue_def)
  have "\<exists>room. rooms B = (rooms st)(toUpperCase nid2 \<mapsto> room) \<and>
                  code room = toUpperCase nid2 \<and> mode room = m \<and>
                  map fst (players room) = [b, a] \<and> order room = [b, a]"
    by (rule exI, rule conjI, rule B_rooms) simp
  then show ?thesis
    unfolding step1 step2 using A_rooms B_qa B_qb by simp
qed

theorem queue_join_pairs_two_witness:
  "(1::sid) \<noteq> 2 \<and> \<not> isInAnyQueue 1 ex_lobby \<and> \<not> isInAnyQueue 2 ex_lobby \<and>
   map_of (queues ex_lobby) ''CLASSIC'' = Some [] \<and>
   (\<exists>room. rooms (step (QueueJoin 2 (Some ''classic'') None ''room04'')
                   (step (QueueJoin 1 None None ''room03'') ex_lobby)) ''ROOM04'' = Some room \<and>
      map fst (players room) = [2, 1] \<and> order room = [2, 1]) \<and>
   \<not> isInAnyQueue 1 (step (QueueJoin 2 (Some ''classic'') None ''room04'')
                   (step (QueueJoin 1 None None ''room03'') ex_lobby)) \<and>
   \<not> isInAnyQueue 2 (step (QueueJoin 2 (Some ''classic'') None ''room04'')
                   (step (QueueJoin 1 None None ''room03'') ex_lobby))"
  using queue_join_pairs_two [OF _ ex_lobby_socket1 ex_lobby_socket2, of None "''CLASSIC''"
      "Some ''classic''" "''room04''" None "''room03''" None]
  by (auto simp: ex_lobby_queues isInAnyQueue_def truthy_def toUpperCase_def upper_char_def
      or_default_def)

end
